theory Spec2Isabelle
  imports Main "HOL-Library.Char_ord" "HOL-Library.List_Lexorder"
begin

section \<open>Values exchanged with Qt\<close>

text \<open>
  A \<open>QFileInfo\<close> as the model stores it: the answers of the accessors the program calls
  (\<open>fileName()\<close>, \<open>filePath()\<close>, \<open>absoluteFilePath()\<close>, \<open>absolutePath()\<close>, \<open>isDir()\<close>,
  \<open>size()\<close>, \<open>created()\<close>, \<open>lastModified()\<close>), taken when the directory was read.
  \<open>size()\<close> is a \<open>qint64\<close>; the program only divides it, so it is an \<open>int\<close> here.
  Time stamps are seconds since the epoch.
\<close>

record fileinfo =
  fileName :: string
  filePath :: string
  absoluteFilePath :: string
  absolutePath :: string
  isDir :: bool
  size_fi :: int
  created :: int
  lastModified :: int

text \<open>The \<open>QVariant\<close> values \<open>DirModel::data\<close> returns; \<open>Invalid\<close> is \<open>QVariant()\<close>.\<close>

datatype qvariant =
  Invalid
  | QString string
  | QBool bool
  | QDateTime int
  | QUrl string

text \<open>
  A \<open>QModelIndex\<close>: row and column; the invalid index \<open>QModelIndex()\<close> has row and
  column \<open>-1\<close>.
\<close>

record qmodelindex =
  row :: int
  column :: int

definition invalid_index :: qmodelindex where
  "invalid_index = \<lparr>row = - 1, column = - 1\<rparr>"

text \<open>
  What the program does to the outside, in the order it does it: the signals of the
  model (\<open>beginResetModel\<close>, \<open>endResetModel\<close>, \<open>pathChanged\<close>), the lines written with
  \<open>qWarning\<close> (the literal of the source and the value that follows it), and the
  calls into the file system. The lines written with \<open>qDebug\<close> are left out.
\<close>

datatype event =
  ModelAboutToBeReset
  | ModelReset
  | PathChanged
  | Warning string
  | OsOpenDir string
  | OsRemove string
  | OsRenameFile string string
  | OsRenameDir string string

definition is_warning :: "event \<Rightarrow> bool" where
  "is_warning e = (case e of Warning _ \<Rightarrow> True | _ \<Rightarrow> False)"

section \<open>The file system boundary\<close>

text \<open>
  The Qt and operating system primitives the program calls, over a file system state
  of type \<open>'fs\<close>:
  \<^item> \<open>qdir_path p\<close> is \<open>QDir(p).path()\<close>, the path a \<open>QDir\<close> built from \<open>p\<close> reports;
  \<^item> \<open>dir_entries fs d\<close> is the sequence a \<open>QDirIterator\<close> over the directory \<open>d\<close>
    walks through, \<open>None\<close> when the directory cannot be opened (missing or
    unreadable);
  \<^item> \<open>file_remove\<close> is \<open>QFile::remove\<close>, \<open>file_rename\<close> is \<open>QFile::rename\<close> and
    \<open>dir_rename\<close> is \<open>QDir::rename\<close>: the boolean they return and the file system
    they leave;
  \<^item> \<open>localeAwareCompare\<close> is \<open>QString::localeAwareCompare\<close>.
\<close>

record 'fs os =
  qdir_path :: "string \<Rightarrow> string"
  dir_entries :: "'fs \<Rightarrow> string \<Rightarrow> fileinfo list option"
  file_remove :: "'fs \<Rightarrow> string \<Rightarrow> bool \<times> 'fs"
  file_rename :: "'fs \<Rightarrow> string \<Rightarrow> string \<Rightarrow> bool \<times> 'fs"
  dir_rename :: "'fs \<Rightarrow> string \<Rightarrow> string \<Rightarrow> bool \<times> 'fs"
  localeAwareCompare :: "string \<Rightarrow> string \<Rightarrow> int"

section \<open>DirModel\<close>

text \<open>
  The members \<open>mCurrentDir\<close> (the path of the \<open>QDir\<close>) and \<open>mDirectoryContents\<close>,
  together with the file system the model looks at and the trace of its effects.
\<close>

record 'fs dirmodel =
  fs :: 'fs
  mCurrentDir :: string
  mDirectoryContents :: "fileinfo list"
  trace :: "event list"

subsection \<open>Roles\<close>

definition FileNameRole :: int where "FileNameRole = 32"
definition CreationDateRole :: int where "CreationDateRole = 33"
definition ModifiedDateRole :: int where "ModifiedDateRole = 34"
definition FileSizeRole :: int where "FileSizeRole = 35"
definition IconSourceRole :: int where "IconSourceRole = 36"
definition FilePathRole :: int where "FilePathRole = 37"
definition IsDirRole :: int where "IsDirRole = 38"
definition IsFileRole :: int where "IsFileRole = 39"

text \<open>
  \<open>roleNames()\<close> of a fresh \<open>QAbstractListModel\<close> (Qt 4): the six built-in item roles.
\<close>

definition defaultRoleNames :: "(int \<times> string) list" where
  "defaultRoleNames =
     [(0, ''display''), (1, ''decoration''), (2, ''edit''),
      (3, ''toolTip''), (4, ''statusTip''), (5, ''whatsThis'')]"

text \<open>The role names the constructor inserts.\<close>

definition ownRoleNames :: "(int \<times> string) list" where
  "ownRoleNames =
     [(FileNameRole, ''fileName''), (CreationDateRole, ''creationDate''),
      (ModifiedDateRole, ''modifiedDate''), (FileSizeRole, ''fileSize''),
      (IconSourceRole, ''iconSource''), (FilePathRole, ''filePath''),
      (IsDirRole, ''isDir''), (IsFileRole, ''isFile'')]"

definition roles :: "(int \<times> string) list" where
  "roles = defaultRoleNames @ ownRoleNames"

text \<open>
  The reverse mapping \<open>mRoleMapping\<close>, filled once in the constructor from every pair
  of \<open>roles\<close> and never written again.
\<close>

definition mRoleMapping :: "(string \<times> int) list" where
  "mRoleMapping = map (\<lambda>(k, v). (v, k)) roles"

subsection \<open>Read accessors\<close>

text \<open>
  \<open>rowCount\<close>. In a list model the parent of every index is the invalid index, so the
  test \<open>index.parent() != QModelIndex()\<close> of the source never holds.
\<close>

definition rowCount :: "'fs dirmodel \<Rightarrow> int" where
  "rowCount m = int (length (mDirectoryContents m))"

text \<open>
  \<open>QAbstractListModel::index(row, column)\<close>: the index itself when \<open>hasIndex\<close> holds
  (a list model has one column), the invalid index otherwise.
\<close>

definition index :: "'fs dirmodel \<Rightarrow> int \<Rightarrow> int \<Rightarrow> qmodelindex" where
  "index m r c =
     (if r < 0 \<or> c < 0 then invalid_index
      else if r < rowCount m \<and> c < 1 then \<lparr>row = r, column = c\<rparr>
      else invalid_index)"

text \<open>\<open>QString::number\<close> of a \<open>qint64\<close>, base ten.\<close>

fun digits :: "nat \<Rightarrow> string" where
  "digits n =
     (if n < 10 then [''0123456789'' ! n]
      else digits (n div 10) @ [''0123456789'' ! (n mod 10)])"

declare digits.simps [simp del]

definition number :: "int \<Rightarrow> string" where
  "number i = (if i < 0 then CHR ''-'' # digits (nat (- i)) else digits (nat i))"

text \<open>Division of C++ on signed integers: the quotient is truncated towards zero.\<close>

definition cdiv :: "int \<Rightarrow> int \<Rightarrow> int" where
  "cdiv a b = sgn a * sgn b * (\<bar>a\<bar> div \<bar>b\<bar>)"

definition endsWith :: "string \<Rightarrow> string \<Rightarrow> bool" where
  "endsWith s e = (length e \<le> length s \<and> drop (length s - length e) s = e)"

definition fromLocalFile :: "string \<Rightarrow> string" where
  "fromLocalFile p = ''file://'' @ p"

text \<open>The \<open>FileSizeRole\<close> case of \<open>data\<close>.\<close>

definition fileSizeText :: "int \<Rightarrow> string" where
  "fileSizeText sz =
     (let kb = cdiv sz 1024 in
      if kb < 1 then number sz @ '' bytes''
      else if kb < 1024 then number kb @ '' kb''
      else number (cdiv kb 1024) @ ''mb'')"

text \<open>The \<open>IconSourceRole\<close> case of \<open>data\<close>.\<close>

definition iconSource :: "fileinfo \<Rightarrow> qvariant" where
  "iconSource fi =
     (if endsWith (fileName fi) ''.jpg'' \<or> endsWith (fileName fi) ''.png''
      then QUrl (fromLocalFile (filePath fi))
      else if isDir fi then QString ''image://theme/icon-m-common-directory''
      else QString ''image://theme/icon-m-content-document'')"

text \<open>
  \<open>data(const QModelIndex &, int role)\<close>: the value, and what it writes with
  \<open>qWarning\<close>. The method is \<open>const\<close>: it returns no new model. \<open>Q_ASSERT\<close> compiles to
  nothing (the assertion in this method names a variable that is not in scope, so the
  program only builds with assertions off).
\<close>

definition data_role :: "'fs dirmodel \<Rightarrow> qmodelindex \<Rightarrow> int \<Rightarrow> qvariant \<times> event list" where
  "data_role m idx role =
     (if role < FileNameRole \<or> role > IsFileRole
      then (Invalid, [Warning (''Got an out of range role: '' @ number role)])
      else if row idx < 0 \<or> row idx \<ge> int (length (mDirectoryContents m))
      then (Invalid, [])
      else if column idx \<noteq> 0 then (Invalid, [])
      else
        (let fi = mDirectoryContents m ! nat (row idx) in
         if role = FileNameRole then (QString (fileName fi), [])
         else if role = CreationDateRole then (QDateTime (created fi), [])
         else if role = ModifiedDateRole then (QDateTime (lastModified fi), [])
         else if role = FileSizeRole then (QString (fileSizeText (size_fi fi)), [])
         else if role = IconSourceRole then (iconSource fi, [])
         else if role = FilePathRole then (QString (filePath fi), [])
         else if role = IsDirRole then (QBool (isDir fi), [])
         else if role = IsFileRole then (QBool (\<not> isDir fi), [])
         else (Invalid, [Warning (''Got an unknown role: '' @ number role)])))"

text \<open>\<open>data(int row, const QByteArray &stringRole)\<close>, the accessor the view calls.\<close>

definition data :: "'fs dirmodel \<Rightarrow> int \<Rightarrow> string \<Rightarrow> qvariant \<times> event list" where
  "data m r stringRole =
     (case map_of mRoleMapping stringRole of
        None \<Rightarrow> (Invalid, [])
      | Some role \<Rightarrow> data_role m (index m r 0) role)"

subsection \<open>Loading a directory\<close>

text \<open>
  The test of the loop in \<open>setPath\<close>, \<open>it.fileName()[0] == QLatin1Char('.')\<close>. On an
  empty name \<open>operator[]\<close> reads the terminating zero, which is not a dot.
\<close>

definition startsWithDot :: "string \<Rightarrow> bool" where
  "startsWithDot n = (case n of [] \<Rightarrow> False | c # _ \<Rightarrow> c = CHR ''.'')"

text \<open>
  The \<open>while (it.hasNext())\<close> loop of \<open>setPath\<close>: the entries still to come and the
  vector \<open>directoryContents\<close> built so far.
\<close>

fun collect :: "fileinfo list \<Rightarrow> fileinfo list \<Rightarrow> fileinfo list" where
  "collect [] directoryContents = directoryContents"
| "collect (fi # it) directoryContents =
     (if startsWithDot (fileName fi) then collect it directoryContents
      else collect it (directoryContents @ [fi]))"

definition fileCompare :: "'fs os \<Rightarrow> fileinfo \<Rightarrow> fileinfo \<Rightarrow> bool" where
  "fileCompare os a b =
     (if isDir a \<and> \<not> isDir b then True
      else if isDir b \<and> \<not> isDir a then False
      else localeAwareCompare os (fileName a) (fileName b) < 0)"

text \<open>
  \<open>std::sort(first, last, comp)\<close> of the C++ library, which leaves the range ordered
  by \<open>comp\<close> (\<open>cmp\<close> below); here it is sorting by insertion.
\<close>

fun insert_sorted :: "('a \<Rightarrow> 'a \<Rightarrow> bool) \<Rightarrow> 'a \<Rightarrow> 'a list \<Rightarrow> 'a list" where
  "insert_sorted cmp x [] = [x]"
| "insert_sorted cmp x (y # ys) =
     (if cmp x y then x # y # ys else y # insert_sorted cmp x ys)"

fun std_sort :: "('a \<Rightarrow> 'a \<Rightarrow> bool) \<Rightarrow> 'a list \<Rightarrow> 'a list" where
  "std_sort cmp [] = []"
| "std_sort cmp (x # xs) = insert_sorted cmp x (std_sort cmp xs)"

definition path :: "'fs dirmodel \<Rightarrow> string" where
  "path m = mCurrentDir m"

text \<open>
  \<open>setPath\<close>. A directory that cannot be opened gives an iterator whose \<open>hasNext()\<close>
  is false at once; the program does not look at the difference.
\<close>

definition setPath :: "'fs os \<Rightarrow> string \<Rightarrow> 'fs dirmodel \<Rightarrow> 'fs dirmodel" where
  "setPath os pathName m =
     (let tmpDir = qdir_path os pathName;
          it = (case dir_entries os (fs m) tmpDir of None \<Rightarrow> [] | Some es \<Rightarrow> es);
          directoryContents = std_sort (fileCompare os) (collect it [])
      in m\<lparr>mCurrentDir := tmpDir,
           mDirectoryContents := directoryContents,
           trace := trace m @ [ModelAboutToBeReset, OsOpenDir tmpDir, PathChanged, ModelReset]\<rparr>)"

definition refresh :: "'fs os \<Rightarrow> 'fs dirmodel \<Rightarrow> 'fs dirmodel" where
  "refresh os m = setPath os (path m) m"

subsection \<open>Mutation commands\<close>

text \<open>
  The \<open>foreach\<close> loop of \<open>rm\<close>, with its local variable \<open>error\<close>:
  \<open>error |= QFile::remove(path); if (error) { qWarning() ...; error = false; }\<close>.
\<close>

fun rm_loop :: "'fs os \<Rightarrow> string list \<Rightarrow> bool \<Rightarrow> 'fs dirmodel \<Rightarrow> 'fs dirmodel" where
  "rm_loop os [] error m = m"
| "rm_loop os (p # paths) error m =
     (let (removed, fs') = file_remove os (fs m) p;
          error' = (error \<or> removed);
          m' = m\<lparr>fs := fs', trace := trace m @ [OsRemove p]\<rparr>
      in if error'
         then rm_loop os paths False
                (m'\<lparr>trace := trace m' @ [Warning (''Failed to remove '' @ p)]\<rparr>)
         else rm_loop os paths error' m')"

definition rm :: "'fs os \<Rightarrow> string list \<Rightarrow> 'fs dirmodel \<Rightarrow> 'fs dirmodel" where
  "rm os paths m = refresh os (rm_loop os paths False m)"

text \<open>\<open>QDir::separator()\<close>; the program is built for Unix only.\<close>

definition separator :: string where
  "separator = ''/''"

text \<open>\<open>rename\<close>: the boolean it returns and the model it leaves.\<close>

definition rename :: "'fs os \<Rightarrow> int \<Rightarrow> string \<Rightarrow> 'fs dirmodel \<Rightarrow> bool \<times> 'fs dirmodel" where
  "rename os r newName m =
     (if r < 0 \<or> r \<ge> int (length (mDirectoryContents m))
      then (False, m\<lparr>trace := trace m @ [Warning ''Out of bounds access'']\<rparr>)
      else
        (let fi = mDirectoryContents m ! nat r;
             old = absoluteFilePath fi;
             new = absolutePath fi @ separator @ newName
         in if \<not> isDir fi
            then
              (let (retval, fs') = file_rename os (fs m) old new;
                   m' = m\<lparr>fs := fs', trace := trace m @ [OsRenameFile old new]\<rparr>
               in if \<not> retval then (retval, m') else (retval, refresh os m'))
            else
              (let (retval, fs') = dir_rename os (fs m) old new;
                   m' = m\<lparr>fs := fs', trace := trace m @ [OsRenameDir old new]\<rparr>
               in (retval, refresh os m'))))"

section \<open>A small file system for examples\<close>

text \<open>
  A file system as the list of its nodes, each a \<open>fileinfo\<close> with absolute paths. A
  directory that exists lists the two dot entries and then its children.
\<close>

definition mk_node :: "string \<Rightarrow> string \<Rightarrow> bool \<Rightarrow> int \<Rightarrow> fileinfo" where
  "mk_node dir name d sz =
     \<lparr>fileName = name, filePath = dir @ ''/'' @ name,
      absoluteFilePath = dir @ ''/'' @ name, absolutePath = dir,
      isDir = d, size_fi = sz, created = 0, lastModified = 0\<rparr>"

definition exists_node :: "fileinfo list \<Rightarrow> string \<Rightarrow> bool" where
  "exists_node nodes p = (p \<in> set (map absoluteFilePath nodes))"

definition is_directory :: "fileinfo list \<Rightarrow> string \<Rightarrow> bool" where
  "is_directory nodes p =
     (p \<in> set (map absoluteFilePath (filter isDir nodes)))"

definition is_plain_file :: "fileinfo list \<Rightarrow> string \<Rightarrow> bool" where
  "is_plain_file nodes p =
     (p \<in> set (map absoluteFilePath (filter (\<lambda>n. \<not> isDir n) nodes)))"

definition ex_entries :: "fileinfo list \<Rightarrow> string \<Rightarrow> fileinfo list option" where
  "ex_entries nodes d =
     (if is_directory nodes d
      then Some (mk_node d ''.'' True 0 # mk_node d ''..'' True 0 #
                 filter (\<lambda>n. absolutePath n = d) nodes)
      else None)"

definition ex_remove :: "fileinfo list \<Rightarrow> string \<Rightarrow> bool \<times> fileinfo list" where
  "ex_remove nodes p =
     (if is_plain_file nodes p
      then (True, filter (\<lambda>n. absoluteFilePath n \<noteq> p) nodes)
      else (False, nodes))"

text \<open>The part of a path after its last slash, and the part before it.\<close>

definition base_name :: "string \<Rightarrow> string" where
  "base_name p = rev (takeWhile (\<lambda>c. c \<noteq> CHR ''/'') (rev p))"

definition dir_name :: "string \<Rightarrow> string" where
  "dir_name p = rev (drop 1 (dropWhile (\<lambda>c. c \<noteq> CHR ''/'') (rev p)))"

text \<open>Moving the path \<open>p\<close> along when \<open>old\<close> or a directory above \<open>p\<close> becomes \<open>new\<close>.\<close>

definition moved :: "string \<Rightarrow> string \<Rightarrow> string \<Rightarrow> string" where
  "moved old new p =
     (if p = old \<or> take (length old + 1) p = old @ ''/''
      then new @ drop (length old) p
      else p)"

definition move_node :: "string \<Rightarrow> string \<Rightarrow> fileinfo \<Rightarrow> fileinfo" where
  "move_node old new n =
     (let p = moved old new (absoluteFilePath n)
      in n\<lparr>fileName := base_name p, filePath := p,
            absoluteFilePath := p, absolutePath := dir_name p\<rparr>)"

text \<open>
  Renaming fails when the source is missing (or of the wrong kind), when the target
  exists, or when the directory that is to hold the target does not exist.
\<close>

definition ex_rename :: "bool \<Rightarrow> fileinfo list \<Rightarrow> string \<Rightarrow> string \<Rightarrow> bool \<times> fileinfo list" where
  "ex_rename want_dir nodes old new =
     (if (if want_dir then is_directory nodes old else is_plain_file nodes old)
         \<and> \<not> exists_node nodes new \<and> is_directory nodes (dir_name new)
      then (True, map (move_node old new) nodes)
      else (False, nodes))"

text \<open>The collation of the C locale: strings compare by their character codes.\<close>

definition c_compare :: "string \<Rightarrow> string \<Rightarrow> int" where
  "c_compare a b = (if a < b then - 1 else if a = b then 0 else 1)"

text \<open>\<open>QDir\<close> drops one trailing slash of a path longer than one character.\<close>

definition ex_qdir_path :: "string \<Rightarrow> string" where
  "ex_qdir_path p =
     (if length p > 1 \<and> last p = CHR ''/'' then butlast p else p)"

definition ex_os :: "(fileinfo list) os" where
  "ex_os =
     \<lparr>qdir_path = ex_qdir_path,
      dir_entries = ex_entries,
      file_remove = ex_remove,
      file_rename = ex_rename False,
      dir_rename = ex_rename True,
      localeAwareCompare = c_compare\<rparr>"

text \<open>
  \<open>/home\<close> holds a hidden file, two files, a picture and two directories.
\<close>

definition ex_nodes :: "fileinfo list" where
  "ex_nodes =
     [mk_node [] ''home'' True 0,
      mk_node ''/home'' ''.hidden'' False 10,
      mk_node ''/home'' ''B.txt'' False 500,
      mk_node ''/home'' ''a.txt'' False 2048,
      mk_node ''/home'' ''sub'' True 0,
      mk_node ''/home'' ''pics'' True 0,
      mk_node ''/home/pics'' ''big.png'' False 5242880]"

definition ex_model0 :: "(fileinfo list) dirmodel" where
  "ex_model0 = \<lparr>fs = ex_nodes, mCurrentDir = [], mDirectoryContents = [], trace = []\<rparr>"

definition ex_model :: "(fileinfo list) dirmodel" where
  "ex_model = setPath ex_os ''/home'' ex_model0"

text \<open>
  The same model after another program has created \<open>/home/new.txt\<close>: the listing is
  the one read before.
\<close>

definition ex_stale :: "(fileinfo list) dirmodel" where
  "ex_stale = ex_model\<lparr>fs := ex_nodes @ [mk_node ''/home'' ''new.txt'' False 1]\<rparr>"

text \<open>
  A file system that opens a directory under any spelling of its trailing slashes, as
  a Unix system does. The iterator builds the \<open>filePath\<close> of an entry from the spelling
  it was given: the path, a slash unless the path ends in one, and the name.
\<close>

definition strip_slashes :: "string \<Rightarrow> string" where
  "strip_slashes p =
     (let q = rev (dropWhile (\<lambda>c. c = CHR ''/'') (rev p))
      in if q = [] \<and> p \<noteq> [] then ''/'' else q)"

definition join_path :: "string \<Rightarrow> string \<Rightarrow> string" where
  "join_path d n = (if d \<noteq> [] \<and> last d = CHR ''/'' then d @ n else d @ ''/'' @ n)"

definition ex_entries_spelt :: "fileinfo list \<Rightarrow> string \<Rightarrow> fileinfo list option" where
  "ex_entries_spelt nodes d =
     (case ex_entries nodes (strip_slashes d) of
        None \<Rightarrow> None
      | Some es \<Rightarrow> Some (map (\<lambda>n. n\<lparr>filePath := join_path d (fileName n)\<rparr>) es))"

definition ex_os_spelt :: "(fileinfo list) os" where
  "ex_os_spelt = ex_os\<lparr>dir_entries := ex_entries_spelt\<rparr>"

text \<open>The model after \<open>setPath\<close> on \<open>/home////\<close>; \<open>QDir\<close> has dropped one slash.\<close>

definition ex_slashes :: "(fileinfo list) dirmodel" where
  "ex_slashes = setPath ex_os_spelt ''/home////'' ex_model0"

section \<open>Assumptions on the library\<close>

text \<open>
  What a collation gives: comparing the other way round flips the sign, and
  \<open>\<le> 0\<close> is transitive.
\<close>

definition collation_order :: "(string \<Rightarrow> string \<Rightarrow> int) \<Rightarrow> bool" where
  "collation_order cmp \<longleftrightarrow>
     (\<forall>a b. (cmp a b < 0) = (0 < cmp b a)) \<and>
     (\<forall>a b c. cmp a b \<le> 0 \<longrightarrow> cmp b c \<le> 0 \<longrightarrow> cmp a c \<le> 0)"

section \<open>Facts about the accessors\<close>

lemmas role_defs =
  FileNameRole_def CreationDateRole_def ModifiedDateRole_def FileSizeRole_def
  IconSourceRole_def FilePathRole_def IsDirRole_def IsFileRole_def

lemma mRoleMapping_own:
  "map_of mRoleMapping ''fileName'' = Some FileNameRole"
  "map_of mRoleMapping ''fileSize'' = Some FileSizeRole"
  "map_of mRoleMapping ''isDir'' = Some IsDirRole"
  "map_of mRoleMapping ''isFile'' = Some IsFileRole"
  by (simp_all add: mRoleMapping_def roles_def defaultRoleNames_def ownRoleNames_def)

text \<open>A key that is not one of the eight names of the constructor maps to a built-in role.\<close>

lemma mRoleMapping_other:
  "k \<notin> set (map snd ownRoleNames) \<Longrightarrow> map_of mRoleMapping k = Some role \<Longrightarrow>
   role < FileNameRole"
  by (auto simp add: mRoleMapping_def roles_def defaultRoleNames_def ownRoleNames_def role_defs
      split: if_splits)

lemma index_in_range:
  "0 \<le> r \<Longrightarrow> r < rowCount m \<Longrightarrow> index m r 0 = \<lparr>row = r, column = 0\<rparr>"
  by (simp add: index_def)

lemma index_out_of_range:
  "r < 0 \<or> rowCount m \<le> r \<Longrightarrow> index m r 0 = invalid_index"
  by (auto simp add: index_def)

lemma data_role_invalid_index: "fst (data_role m invalid_index role) = Invalid"
  by (simp add: data_role_def invalid_index_def)

lemma data_role_log:
  "snd (data_role m idx role) =
     (if role < FileNameRole \<or> role > IsFileRole
      then [Warning (''Got an out of range role: '' @ number role)]
      else [])"
  by (simp add: data_role_def Let_def role_defs)

lemma data_listing_only:
  "mDirectoryContents a = mDirectoryContents b \<Longrightarrow> data a r k = data b r k"
  by (simp add: data_def index_def rowCount_def data_role_def split: option.splits)

lemma data_fileName:
  "0 \<le> r \<Longrightarrow> r < rowCount m \<Longrightarrow>
   data m r ''fileName'' = (QString (fileName (mDirectoryContents m ! nat r)), [])"
  by (simp add: data_def mRoleMapping_own index_in_range data_role_def role_defs rowCount_def)

lemma data_fileSize:
  "0 \<le> r \<Longrightarrow> r < rowCount m \<Longrightarrow>
   data m r ''fileSize'' = (QString (fileSizeText (size_fi (mDirectoryContents m ! nat r))), [])"
  by (simp add: data_def mRoleMapping_own index_in_range data_role_def role_defs rowCount_def)

subsection \<open>The size text\<close>

lemma cdiv_nonneg: "0 \<le> a \<Longrightarrow> 0 < b \<Longrightarrow> cdiv a b = a div b"
  by (cases "a = 0") (simp_all add: cdiv_def)

lemma cdiv_less_one: "(cdiv a 1024 < 1) = (a < 1024)"
proof (cases "0 \<le> a")
  case True
  then have "(a div 1024 < 1) = (a < 1024)"
    using div_pos_pos_trivial [of a 1024] pos_imp_zdiv_pos_iff [of 1024 a] by auto
  then show ?thesis using True by (simp add: cdiv_nonneg)
next
  case False
  then have "sgn a = - 1" by simp
  then have "cdiv a 1024 = - (\<bar>a\<bar> div 1024)" by (simp add: cdiv_def)
  moreover have "0 \<le> \<bar>a\<bar> div 1024" by simp
  ultimately show ?thesis using False by linarith
qed

lemma fileSizeText_tiers:
  "fileSizeText sz =
     (if sz < 1024 then number sz @ '' bytes''
      else if sz div 1024 < 1024 then number (sz div 1024) @ '' kb''
      else number (sz div 1024 div 1024) @ ''mb'')"
proof (cases "sz < 1024")
  case True
  then show ?thesis by (simp add: fileSizeText_def Let_def cdiv_less_one)
next
  case False
  then have nonneg: "0 \<le> sz" by simp
  then have a: "cdiv sz 1024 = sz div 1024" by (simp add: cdiv_nonneg)
  have "0 \<le> sz div 1024" using nonneg by simp
  then have b: "cdiv (sz div 1024) 1024 = sz div 1024 div 1024" by (simp add: cdiv_nonneg)
  have "\<not> sz div 1024 < 1" using False by simp
  then show ?thesis using False a b by (simp add: fileSizeText_def Let_def)
qed

lemma fileSizeText_500: "fileSizeText 500 = ''500 bytes''"
  by code_simp

lemma fileSizeText_2048: "fileSizeText 2048 = ''2 kb''"
  by code_simp

lemma fileSizeText_5mb: "fileSizeText (5 * 1024 * 1024) = ''5mb''"
  by code_simp

section \<open>Facts about loading\<close>

lemma collect_filter:
  "collect it acc = acc @ filter (\<lambda>fi. \<not> startsWithDot (fileName fi)) it"
  by (induction it arbitrary: acc) simp_all

lemma startsWithDot_take: "startsWithDot n = (take 1 n = ''.'')"
  by (cases n) (simp_all add: startsWithDot_def)

lemma set_insert_sorted: "set (insert_sorted cmp x ys) = insert x (set ys)"
  by (induction ys) auto

lemma set_std_sort: "set (std_sort cmp xs) = set xs"
  by (induction xs) (simp_all add: set_insert_sorted)

text \<open>
  Insertion keeps a list ordered when \<open>cmp\<close> is a strict weak order: it never holds
  both ways, and "not after" is transitive.
\<close>

lemma sorted_insert_sorted:
  assumes asym: "\<And>a b. cmp a b \<Longrightarrow> \<not> cmp b a"
    and trans: "\<And>a b c. \<not> cmp b a \<Longrightarrow> \<not> cmp c b \<Longrightarrow> \<not> cmp c a"
  shows "sorted_wrt (\<lambda>a b. \<not> cmp b a) ys \<Longrightarrow>
    sorted_wrt (\<lambda>a b. \<not> cmp b a) (insert_sorted cmp x ys)"
proof (induction ys)
  case Nil
  then show ?case by simp
next
  case (Cons y ys)
  show ?case
  proof (cases "cmp x y")
    case True
    then have xy: "\<not> cmp y x" by (rule asym)
    have "\<forall>z\<in>set ys. \<not> cmp z x"
    proof
      fix z assume "z \<in> set ys"
      then have "\<not> cmp z y" using Cons.prems by simp
      with xy show "\<not> cmp z x" by (rule trans)
    qed
    then show ?thesis using True xy Cons.prems by simp
  next
    case False
    then show ?thesis using Cons by (auto simp add: set_insert_sorted)
  qed
qed

lemma sorted_std_sort:
  assumes asym: "\<And>a b. cmp a b \<Longrightarrow> \<not> cmp b a"
    and trans: "\<And>a b c. \<not> cmp b a \<Longrightarrow> \<not> cmp c b \<Longrightarrow> \<not> cmp c a"
  shows "sorted_wrt (\<lambda>a b. \<not> cmp b a) (std_sort cmp xs)"
proof (induction xs)
  case Nil
  show ?case by simp
next
  case (Cons x xs)
  then show ?case using sorted_insert_sorted [of cmp, OF asym trans] by simp
qed

lemma collation_flip: "collation_order cmp \<Longrightarrow> (cmp a b < 0) = (0 < cmp b a)"
  by (simp add: collation_order_def)

lemma collation_trans:
  "collation_order cmp \<Longrightarrow> cmp a b \<le> 0 \<Longrightarrow> cmp b c \<le> 0 \<Longrightarrow> cmp a c \<le> 0"
  unfolding collation_order_def by blast

lemma collation_not_less: "collation_order cmp \<Longrightarrow> (\<not> cmp b a < 0) = (cmp a b \<le> 0)"
  using collation_flip [of cmp b a] by auto

lemma fileCompare_asym:
  assumes "collation_order (localeAwareCompare os)"
  shows "fileCompare os a b \<Longrightarrow> \<not> fileCompare os b a"
  using collation_flip [OF assms, of "fileName a" "fileName b"]
  by (auto simp add: fileCompare_def split: if_splits)

text \<open>When \<open>b\<close> does not go before \<open>a\<close>.\<close>

lemma not_fileCompare:
  assumes "collation_order (localeAwareCompare os)"
  shows "(\<not> fileCompare os b a) =
     ((isDir a \<and> \<not> isDir b) \<or>
      (isDir a = isDir b \<and> localeAwareCompare os (fileName a) (fileName b) \<le> 0))"
  using collation_not_less [OF assms, of "fileName b" "fileName a"]
  by (auto simp add: fileCompare_def)

lemma fileCompare_negtrans:
  assumes c: "collation_order (localeAwareCompare os)"
  shows "\<not> fileCompare os b a \<Longrightarrow> \<not> fileCompare os c b \<Longrightarrow> \<not> fileCompare os c a"
  unfolding not_fileCompare [OF c]
  using collation_trans [OF c, of "fileName a" "fileName b" "fileName c"]
  by auto

lemma setPath_fs: "fs (setPath os p m) = fs m"
  by (simp add: setPath_def Let_def)

lemma setPath_path: "mCurrentDir (setPath os p m) = qdir_path os p"
  by (simp add: setPath_def Let_def)

lemma setPath_listing:
  "mDirectoryContents (setPath os p m) =
     std_sort (fileCompare os)
       (collect (case dir_entries os (fs m) (qdir_path os p) of None \<Rightarrow> [] | Some es \<Rightarrow> es) [])"
  by (simp add: setPath_def Let_def)

lemma setPath_trace:
  "trace (setPath os p m) =
     trace m @ [ModelAboutToBeReset, OsOpenDir (qdir_path os p), PathChanged, ModelReset]"
  by (simp add: setPath_def Let_def)

lemma setPath_unopened:
  "dir_entries os (fs m) (qdir_path os p) = None \<Longrightarrow>
   setPath os p m =
     m\<lparr>mCurrentDir := qdir_path os p, mDirectoryContents := [],
       trace := trace m @
         [ModelAboutToBeReset, OsOpenDir (qdir_path os p), PathChanged, ModelReset]\<rparr>"
  by (simp add: setPath_def Let_def)

lemma listing_sorted:
  assumes c: "collation_order (localeAwareCompare os)"
  shows "sorted_wrt (\<lambda>a b. \<not> fileCompare os b a) (mDirectoryContents (setPath os p m))"
  using sorted_std_sort [of "fileCompare os",
      OF fileCompare_asym [OF c] fileCompare_negtrans [OF c]]
  by (simp add: setPath_def Let_def)

text \<open>Two rows of a loaded listing, the first above the second.\<close>

lemma listing_pairs:
  assumes c: "collation_order (localeAwareCompare os)"
    and "i < j" and "j < length (mDirectoryContents (setPath os p m))"
  shows "(isDir (mDirectoryContents (setPath os p m) ! i) \<and>
       \<not> isDir (mDirectoryContents (setPath os p m) ! j)) \<or>
      (isDir (mDirectoryContents (setPath os p m) ! i) =
         isDir (mDirectoryContents (setPath os p m) ! j) \<and>
       localeAwareCompare os (fileName (mDirectoryContents (setPath os p m) ! i))
         (fileName (mDirectoryContents (setPath os p m) ! j)) \<le> 0)"
proof -
  have "\<not> fileCompare os (mDirectoryContents (setPath os p m) ! j)
      (mDirectoryContents (setPath os p m) ! i)"
    using listing_sorted [OF c, of p m] assms(2,3) by (simp add: sorted_wrt_iff_nth_less)
  then show ?thesis by (simp add: not_fileCompare [OF c])
qed

lemma listing_not_hidden:
  "fi \<in> set (mDirectoryContents (setPath os p m)) \<Longrightarrow> take 1 (fileName fi) \<noteq> ''.''"
  by (simp add: setPath_def Let_def set_std_sort collect_filter startsWithDot_take)

section \<open>Facts about the mutation commands\<close>

text \<open>One turn of the loop of \<open>rm\<close>; \<open>error\<close> is false again after every turn.\<close>

lemma rm_loop_Cons:
  "rm_loop os (p # ps) e m =
     rm_loop os ps False
       (if e \<or> fst (file_remove os (fs m) p)
        then m\<lparr>fs := snd (file_remove os (fs m) p),
               trace := trace m @ [OsRemove p, Warning (''Failed to remove '' @ p)]\<rparr>
        else m\<lparr>fs := snd (file_remove os (fs m) p), trace := trace m @ [OsRemove p]\<rparr>)"
  by (simp add: Let_def split: prod.splits)

lemma rm_loop_listing:
  "mDirectoryContents (rm_loop os ps e m) = mDirectoryContents m \<and>
   mCurrentDir (rm_loop os ps e m) = mCurrentDir m"
proof (induction ps arbitrary: e m)
  case Nil
  show ?case by simp
next
  case (Cons p ps)
  show ?case unfolding rm_loop_Cons using Cons.IH by simp
qed

lemma rm_loop_attempts:
  "[p. OsRemove p \<leftarrow> trace (rm_loop os ps e m)] = [p. OsRemove p \<leftarrow> trace m] @ ps"
proof (induction ps arbitrary: e m)
  case Nil
  show ?case by simp
next
  case (Cons p ps)
  show ?case unfolding rm_loop_Cons using Cons.IH by simp
qed

lemma rm_loop_no_reset:
  "filter (\<lambda>e. e = ModelReset) (trace (rm_loop os ps e m)) =
   filter (\<lambda>e. e = ModelReset) (trace m)"
proof (induction ps arbitrary: e m)
  case Nil
  show ?case by simp
next
  case (Cons p ps)
  show ?case unfolding rm_loop_Cons using Cons.IH by simp
qed

text \<open>\<open>rm\<close> calls \<open>QFile::remove\<close> on every path, in order, whatever the earlier calls returned.\<close>

lemma rm_attempts_every_path:
  "[p. OsRemove p \<leftarrow> trace (rm os ps m)] = [p. OsRemove p \<leftarrow> trace m] @ ps"
  by (simp add: rm_def refresh_def setPath_trace rm_loop_attempts)

text \<open>\<open>rm\<close> resets the model once, after the loop.\<close>

lemma rm_reloads_once:
  "filter (\<lambda>e. e = ModelReset) (trace (rm os ps m)) =
   filter (\<lambda>e. e = ModelReset) (trace m) @ [ModelReset]"
  by (simp add: rm_def refresh_def setPath_trace rm_loop_no_reset)

text \<open>A single path: the warning is written exactly when \<open>QFile::remove\<close> returned true.\<close>

lemma rm_single:
  "rm os [p] m =
     (if fst (file_remove os (fs m) p)
      then refresh os (m\<lparr>fs := snd (file_remove os (fs m) p),
             trace := trace m @ [OsRemove p, Warning (''Failed to remove '' @ p)]\<rparr>)
      else refresh os (m\<lparr>fs := snd (file_remove os (fs m) p),
             trace := trace m @ [OsRemove p]\<rparr>))"
  by (simp add: rm_def rm_loop_Cons del: rm_loop.simps(2))

text \<open>A file whose rename fails: no reload, the listing stays.\<close>

lemma rename_file_failure:
  assumes "0 \<le> r" and "r < rowCount m"
    and "\<not> isDir (mDirectoryContents m ! nat r)"
    and "\<not> fst (file_rename os (fs m) (absoluteFilePath (mDirectoryContents m ! nat r))
           (absolutePath (mDirectoryContents m ! nat r) @ separator @ newName))"
  shows "fst (rename os r newName m) = False \<and>
     mDirectoryContents (snd (rename os r newName m)) = mDirectoryContents m \<and>
     trace (snd (rename os r newName m)) =
       trace m @ [OsRenameFile (absoluteFilePath (mDirectoryContents m ! nat r))
           (absolutePath (mDirectoryContents m ! nat r) @ separator @ newName)]"
  using assms by (auto simp add: rename_def rowCount_def Let_def split: prod.splits)

text \<open>A directory: the reload follows whatever \<open>QDir::rename\<close> returned.\<close>

lemma rename_directory:
  assumes "0 \<le> r" and "r < rowCount m"
    and "isDir (mDirectoryContents m ! nat r)"
  shows "rename os r newName m =
     (fst (dir_rename os (fs m) (absoluteFilePath (mDirectoryContents m ! nat r))
           (absolutePath (mDirectoryContents m ! nat r) @ separator @ newName)),
      refresh os
        (m\<lparr>fs := snd (dir_rename os (fs m) (absoluteFilePath (mDirectoryContents m ! nat r))
               (absolutePath (mDirectoryContents m ! nat r) @ separator @ newName)),
           trace := trace m @ [OsRenameDir (absoluteFilePath (mDirectoryContents m ! nat r))
               (absolutePath (mDirectoryContents m ! nat r) @ separator @ newName)]\<rparr>))"
  using assms by (simp add: rename_def rowCount_def Let_def split: prod.splits)

section \<open>Facts about the example\<close>

lemma c_compare_collation: "collation_order c_compare"
  by (auto simp add: collation_order_def c_compare_def)

lemma ex_os_compare: "localeAwareCompare ex_os = c_compare"
  by (simp add: ex_os_def)

lemma ex_qdir_home: "qdir_path ex_os ''/home'' = ''/home''"
  by (simp add: ex_os_def ex_qdir_path_def)

lemma fileName_mk_node: "fileName (mk_node d n b sz) = n"
  by (simp add: mk_node_def)

lemma ex_listing:
  "mDirectoryContents (setPath ex_os ''/home'' ex_model0) =
     [mk_node ''/home'' ''pics'' True 0, mk_node ''/home'' ''sub'' True 0,
      mk_node ''/home'' ''B.txt'' False 500, mk_node ''/home'' ''a.txt'' False 2048]"
  by code_simp

lemma ex_model_listing:
  "mDirectoryContents ex_model =
     [mk_node ''/home'' ''pics'' True 0, mk_node ''/home'' ''sub'' True 0,
      mk_node ''/home'' ''B.txt'' False 500, mk_node ''/home'' ''a.txt'' False 2048]"
  by (simp add: ex_model_def ex_listing)

lemma ex_rows: "rowCount ex_model = 4"
  by (simp add: rowCount_def ex_model_listing)

lemma ex_model_path: "path ex_model = ''/home''"
  by (simp add: ex_model_def path_def setPath_path ex_qdir_home)

lemma ex_model_fs: "fs ex_model = ex_nodes"
  by (simp add: ex_model_def setPath_fs ex_model0_def)

lemma ex_nothere: "dir_entries ex_os (fs ex_model) (qdir_path ex_os ''/nothere'') = None"
  by (simp add: ex_model_fs ex_os_def ex_qdir_path_def ex_entries_def
      is_directory_def ex_nodes_def mk_node_def)

lemma ex_remove_missing: "file_remove ex_os ex_nodes ''/home/missing.txt'' = (False, ex_nodes)"
  by code_simp

lemma ex_remove_a: "fst (file_remove ex_os ex_nodes ''/home/a.txt'') = True"
  by code_simp

lemma ex_remove_a_fs:
  "snd (file_remove ex_os ex_nodes ''/home/a.txt'') =
     [mk_node [] ''home'' True 0,
      mk_node ''/home'' ''.hidden'' False 10,
      mk_node ''/home'' ''B.txt'' False 500,
      mk_node ''/home'' ''sub'' True 0,
      mk_node ''/home'' ''pics'' True 0,
      mk_node ''/home/pics'' ''big.png'' False 5242880]"
  by code_simp

lemma ex_stale_listing: "mDirectoryContents ex_stale = mDirectoryContents ex_model"
  by (simp add: ex_stale_def)

lemma ex_stale_rename:
  "dir_rename ex_os (ex_nodes @ [mk_node ''/home'' ''new.txt'' False 1])
     ''/home/sub'' ''/home/pics'' =
   (False, ex_nodes @ [mk_node ''/home'' ''new.txt'' False 1])"
  by code_simp

lemma ex_stale_reload:
  "map fileName (std_sort (fileCompare ex_os)
     (collect (case dir_entries ex_os (ex_nodes @ [mk_node ''/home'' ''new.txt'' False 1])
                 ''/home'' of None \<Rightarrow> [] | Some es \<Rightarrow> es) [])) =
   [''pics'', ''sub'', ''B.txt'', ''a.txt'', ''new.txt'']"
  by code_simp

lemma ex_slashes_path: "path ex_slashes = ''/home///''"
  by (simp add: ex_slashes_def path_def setPath_path ex_os_spelt_def ex_os_def ex_qdir_path_def)

lemma ex_slashes_first:
  "fst (data (refresh ex_os_spelt ex_slashes) 3 ''filePath'') = QString ''/home//a.txt''"
  by code_simp

lemma ex_slashes_second:
  "fst (data (refresh ex_os_spelt (refresh ex_os_spelt ex_slashes)) 3 ''filePath'') =
   QString ''/home/a.txt''"
  by code_simp

section \<open>The claims\<close>

subsection \<open>C1: loading a directory that cannot be opened\<close>

text \<open>
  Claim C1 says that \<open>setPath\<close> on a path that does not exist or is not readable fails
  and leaves listing and path as they were. The program does neither: on \<open>/nothere\<close>
  the example model loses its four rows and its path becomes \<open>/nothere\<close>.
\<close>

theorem setPath_unavailable_changes_model:
  "dir_entries ex_os (fs ex_model) (qdir_path ex_os ''/nothere'') = None \<and>
   mDirectoryContents (setPath ex_os ''/nothere'' ex_model) \<noteq> mDirectoryContents ex_model \<and>
   path (setPath ex_os ''/nothere'' ex_model) \<noteq> path ex_model"
proof -
  have l: "mDirectoryContents (setPath ex_os ''/nothere'' ex_model) = []"
    by (simp add: setPath_unopened [OF ex_nothere])
  have "qdir_path ex_os ''/nothere'' = ''/nothere''"
    by (simp add: ex_os_def ex_qdir_path_def)
  then have p: "path (setPath ex_os ''/nothere'' ex_model) = ''/nothere''"
    by (simp add: path_def setPath_path)
  show ?thesis using ex_nothere l p by (simp add: ex_model_listing ex_model_path)
qed

text \<open>
  Claim C1, as the program has it: when the directory cannot be opened, \<open>setPath\<close>
  reports nothing; it sets the path to the one asked for, empties the listing and
  emits the reset and path-changed signals, as for a directory without entries.
\<close>

theorem setPath_unavailable_empties_listing:
  "dir_entries os (fs m) (qdir_path os p) = None \<Longrightarrow>
   setPath os p m =
     m\<lparr>mCurrentDir := qdir_path os p, mDirectoryContents := [],
       trace := trace m @
         [ModelAboutToBeReset, OsOpenDir (qdir_path os p), PathChanged, ModelReset]\<rparr>"
  by (rule setPath_unopened)

theorem setPath_unavailable_empties_listing_witness:
  "dir_entries ex_os (fs ex_model) (qdir_path ex_os ''/nothere'') = None \<and>
   mDirectoryContents (setPath ex_os ''/nothere'' ex_model) = [] \<and>
   path (setPath ex_os ''/nothere'' ex_model) = ''/nothere''"
proof -
  have h: "dir_entries ex_os (fs ex_model) (qdir_path ex_os ''/nothere'') = None"
    by (rule ex_nothere)
  have q: "qdir_path ex_os ''/nothere'' = ''/nothere''"
    by (simp add: ex_os_def ex_qdir_path_def)
  show ?thesis using h setPath_unavailable_empties_listing [OF h] q by (simp add: path_def)
qed

subsection \<open>C2: a rename that fails\<close>

text \<open>
  Claim C2 says that a failed rename, of a file or of a directory, reloads nothing and
  leaves the listing. For a file the program does so (\<open>rename_file_failure\<close>). For a
  directory it reloads all the same: in the example, row 1 is the directory \<open>sub\<close>,
  renaming it to the existing \<open>pics\<close> fails, and the model is reset and now shows
  \<open>new.txt\<close>, which another program had created.
\<close>

theorem rename_directory_failure_reloads:
  "fst (rename ex_os 1 ''pics'' ex_stale) = False \<and>
   fs (snd (rename ex_os 1 ''pics'' ex_stale)) = fs ex_stale \<and>
   map fileName (mDirectoryContents ex_stale) = [''pics'', ''sub'', ''B.txt'', ''a.txt''] \<and>
   map fileName (mDirectoryContents (snd (rename ex_os 1 ''pics'' ex_stale))) =
     [''pics'', ''sub'', ''B.txt'', ''a.txt'', ''new.txt''] \<and>
   trace (snd (rename ex_os 1 ''pics'' ex_stale)) =
     trace ex_stale @ [OsRenameDir ''/home/sub'' ''/home/pics'',
       ModelAboutToBeReset, OsOpenDir ''/home'', PathChanged, ModelReset]"
proof -
  have r: "(0::int) \<le> 1" "1 < rowCount ex_stale" "isDir (mDirectoryContents ex_stale ! nat 1)"
    by (simp_all add: rowCount_def ex_stale_listing ex_model_listing mk_node_def)
  have f: "fs ex_stale = ex_nodes @ [mk_node ''/home'' ''new.txt'' False 1]"
    by (simp add: ex_stale_def)
  have p: "mCurrentDir ex_stale = ''/home''"
    using ex_model_path by (simp add: ex_stale_def path_def)
  have o: "absoluteFilePath (mDirectoryContents ex_stale ! nat 1) = ''/home/sub''"
    "absolutePath (mDirectoryContents ex_stale ! nat 1) @ separator @ ''pics'' = ''/home/pics''"
    by (simp_all add: ex_stale_listing ex_model_listing mk_node_def separator_def)
  show ?thesis
    unfolding rename_directory [OF r] o f ex_stale_rename
    by (simp add: refresh_def path_def p setPath_fs setPath_trace setPath_listing ex_qdir_home
        ex_stale_reload ex_stale_listing ex_model_listing fileName_mk_node)
qed

subsection \<open>C3: removing a batch of paths\<close>

text \<open>
  Claim C3 says that \<open>rm\<close> tries every path, reports each failure, and reloads once.
  It tries every path (\<open>rm_attempts_every_path\<close>) and reloads once
  (\<open>rm_reloads_once\<close>), but the report is the wrong way round: removing the missing
  \<open>/home/missing.txt\<close> fails and writes no warning, and removing \<open>/home/a.txt\<close>
  succeeds and writes "Failed to remove".
\<close>

theorem rm_failure_not_reported:
  "trace (rm ex_os [''/home/missing.txt''] ex_model) =
     trace ex_model @ [OsRemove ''/home/missing.txt'',
       ModelAboutToBeReset, OsOpenDir ''/home'', PathChanged, ModelReset] \<and>
   fs (rm ex_os [''/home/missing.txt''] ex_model) = fs ex_model \<and>
   trace (rm ex_os [''/home/a.txt''] ex_model) =
     trace ex_model @ [OsRemove ''/home/a.txt'', Warning ''Failed to remove /home/a.txt'',
       ModelAboutToBeReset, OsOpenDir ''/home'', PathChanged, ModelReset] \<and>
   map fileName (mDirectoryContents (rm ex_os [''/home/a.txt''] ex_model)) =
     [''pics'', ''sub'', ''B.txt'']"
proof -
  have l: "map fileName (mDirectoryContents (setPath ex_os ''/home''
      (ex_model\<lparr>fs := snd (file_remove ex_os ex_nodes ''/home/a.txt''),
          trace := trace ex_model @
            [OsRemove ''/home/a.txt'', Warning ''Failed to remove /home/a.txt'']\<rparr>))) =
     [''pics'', ''sub'', ''B.txt'']"
    unfolding setPath_listing ex_remove_a_fs by code_simp
  show ?thesis
    using l
    by (simp add: rm_single ex_model_fs ex_remove_missing ex_remove_a refresh_def path_def
        setPath_trace setPath_fs ex_model_path [unfolded path_def] ex_qdir_home)
qed

subsection \<open>C4: the order of a listing\<close>

text \<open>
  Claim C4: in the listing \<open>setPath\<close> builds, every directory is above every entry that
  is not a directory; two rows of the same kind are in ascending order of their names
  under \<open>localeAwareCompare\<close>; and no row that is a file is followed by a directory.
  The comparison is taken to be a collation.
\<close>

theorem listing_directories_first_then_by_name:
  assumes c: "collation_order (localeAwareCompare os)"
  shows "(\<forall>i j. i < length (mDirectoryContents (setPath os p m)) \<and>
            j < length (mDirectoryContents (setPath os p m)) \<and>
            isDir (mDirectoryContents (setPath os p m) ! i) \<and>
            \<not> isDir (mDirectoryContents (setPath os p m) ! j) \<longrightarrow> i < j) \<and>
         (\<forall>i j. i < j \<and> j < length (mDirectoryContents (setPath os p m)) \<and>
            isDir (mDirectoryContents (setPath os p m) ! i) =
              isDir (mDirectoryContents (setPath os p m) ! j) \<longrightarrow>
            localeAwareCompare os (fileName (mDirectoryContents (setPath os p m) ! i))
              (fileName (mDirectoryContents (setPath os p m) ! j)) \<le> 0) \<and>
         (\<forall>i. i + 1 < length (mDirectoryContents (setPath os p m)) \<longrightarrow>
            \<not> (\<not> isDir (mDirectoryContents (setPath os p m) ! i) \<and>
               isDir (mDirectoryContents (setPath os p m) ! (i + 1))))"
proof (intro conjI allI impI)
  fix i j
  assume h: "i < length (mDirectoryContents (setPath os p m)) \<and>
            j < length (mDirectoryContents (setPath os p m)) \<and>
            isDir (mDirectoryContents (setPath os p m) ! i) \<and>
            \<not> isDir (mDirectoryContents (setPath os p m) ! j)"
  show "i < j"
  proof (rule ccontr)
    assume "\<not> i < j"
    moreover have "i \<noteq> j" using h by auto
    ultimately have "j < i" by simp
    then show False using listing_pairs [OF c, of j i p m] h by auto
  qed
next
  fix i j
  assume "i < j \<and> j < length (mDirectoryContents (setPath os p m)) \<and>
            isDir (mDirectoryContents (setPath os p m) ! i) =
              isDir (mDirectoryContents (setPath os p m) ! j)"
  then show "localeAwareCompare os (fileName (mDirectoryContents (setPath os p m) ! i))
              (fileName (mDirectoryContents (setPath os p m) ! j)) \<le> 0"
    using listing_pairs [OF c, of i j p m] by auto
next
  fix i
  assume "i + 1 < length (mDirectoryContents (setPath os p m))"
  then show "\<not> (\<not> isDir (mDirectoryContents (setPath os p m) ! i) \<and>
               isDir (mDirectoryContents (setPath os p m) ! (i + 1)))"
    using listing_pairs [OF c, of i "i + 1" p m] by auto
qed

theorem listing_directories_first_then_by_name_witness:
  "collation_order (localeAwareCompare ex_os) \<and>
   map isDir (mDirectoryContents (setPath ex_os ''/home'' ex_model0)) =
     [True, True, False, False] \<and>
   localeAwareCompare ex_os
     (fileName (mDirectoryContents (setPath ex_os ''/home'' ex_model0) ! 2))
     (fileName (mDirectoryContents (setPath ex_os ''/home'' ex_model0) ! 3)) \<le> 0"
proof -
  have c: "collation_order (localeAwareCompare ex_os)"
    by (simp add: ex_os_compare c_compare_collation)
  have l: "map isDir (mDirectoryContents (setPath ex_os ''/home'' ex_model0)) =
      [True, True, False, False]"
    by (simp add: ex_listing mk_node_def)
  have "(2::nat) < 3 \<and> 3 < length (mDirectoryContents (setPath ex_os ''/home'' ex_model0)) \<and>
     isDir (mDirectoryContents (setPath ex_os ''/home'' ex_model0) ! 2) =
     isDir (mDirectoryContents (setPath ex_os ''/home'' ex_model0) ! 3)"
    by (simp add: ex_listing mk_node_def)
  then show ?thesis
    using listing_directories_first_then_by_name [OF c, of "''/home''" ex_model0] c l by blast
qed

subsection \<open>C5: hidden entries\<close>

text \<open>
  Claim C5: no entry of the listing \<open>setPath\<close> builds has a name that begins with a
  dot, and for every row in range the \<open>fileName\<close> role gives a string that does not
  begin with a dot.
\<close>

theorem listing_has_no_hidden_entry:
  "(\<forall>fi \<in> set (mDirectoryContents (setPath os p m)). take 1 (fileName fi) \<noteq> ''.'') \<and>
   (\<forall>r. 0 \<le> r \<and> r < rowCount (setPath os p m) \<longrightarrow>
      (\<exists>n. fst (data (setPath os p m) r ''fileName'') = QString n \<and> take 1 n \<noteq> ''.''))"
proof (intro conjI ballI allI impI)
  fix fi assume "fi \<in> set (mDirectoryContents (setPath os p m))"
  then show "take 1 (fileName fi) \<noteq> ''.''" by (rule listing_not_hidden)
next
  fix r assume h: "0 \<le> r \<and> r < rowCount (setPath os p m)"
  then have "nat r < length (mDirectoryContents (setPath os p m))"
    by (auto simp add: rowCount_def nat_less_iff)
  then have "mDirectoryContents (setPath os p m) ! nat r \<in>
      set (mDirectoryContents (setPath os p m))"
    by (rule nth_mem)
  then have "take 1 (fileName (mDirectoryContents (setPath os p m) ! nat r)) \<noteq> ''.''"
    by (rule listing_not_hidden)
  then show "\<exists>n. fst (data (setPath os p m) r ''fileName'') = QString n \<and> take 1 n \<noteq> ''.''"
    using h by (simp add: data_fileName)
qed

theorem listing_has_no_hidden_entry_witness:
  "(0::int) \<le> 2 \<and> 2 < rowCount (setPath ex_os ''/home'' ex_model0) \<and>
   fst (data (setPath ex_os ''/home'' ex_model0) 2 ''fileName'') = QString ''B.txt'' \<and>
   take 1 ''B.txt'' \<noteq> ''.''"
proof -
  have h: "(0::int) \<le> 2 \<and> 2 < rowCount (setPath ex_os ''/home'' ex_model0)"
    by (simp add: rowCount_def ex_listing)
  have "fileName (mDirectoryContents (setPath ex_os ''/home'' ex_model0) ! nat 2) = ''B.txt''"
    by (simp add: ex_listing mk_node_def)
  then have "fst (data (setPath ex_os ''/home'' ex_model0) 2 ''fileName'') = QString ''B.txt''"
    using h by (simp add: data_fileName)
  then show ?thesis
    using h listing_has_no_hidden_entry [of ex_os "''/home''" ex_model0] by auto
qed

subsection \<open>C6: the size role\<close>

text \<open>
  Claim C6: for a row in range the \<open>fileSize\<close> role gives the byte count with
  " bytes" when the size is under 1024; else the size divided by 1024 with " kb" when
  that quotient is under 1024; else the size divided by 1024 twice with "mb". So 500
  gives "500 bytes", 2048 gives "2 kb" and 5 * 1024 * 1024 gives "5mb".
\<close>

theorem fileSize_projection:
  "(0 \<le> r \<and> r < rowCount m \<longrightarrow>
      fst (data m r ''fileSize'') =
        QString (let sz = size_fi (mDirectoryContents m ! nat r) in
          if sz < 1024 then number sz @ '' bytes''
          else if sz div 1024 < 1024 then number (sz div 1024) @ '' kb''
          else number (sz div 1024 div 1024) @ ''mb'')) \<and>
   fileSizeText 500 = ''500 bytes'' \<and>
   fileSizeText 2048 = ''2 kb'' \<and>
   fileSizeText (5 * 1024 * 1024) = ''5mb''"
  using fileSizeText_500 fileSizeText_2048 fileSizeText_5mb
  by (simp add: data_fileSize fileSizeText_tiers Let_def)

theorem fileSize_projection_witness:
  "(0::int) \<le> 3 \<and> 3 < rowCount ex_model \<and>
   size_fi (mDirectoryContents ex_model ! 3) = 2048 \<and>
   fst (data ex_model 3 ''fileSize'') = QString ''2 kb''"
proof -
  have sz: "size_fi (mDirectoryContents ex_model ! 3) = 2048"
    by (simp add: ex_model_listing mk_node_def)
  have n: "number 2 = ''2''"
    by code_simp
  show ?thesis
    using fileSize_projection [of 3 ex_model] by (simp add: ex_rows sz n)
qed

subsection \<open>C7: a role or a row that does not exist\<close>

text \<open>
  Claim C7: when the role key is not one of the eight keys of the role map, or the row
  is outside the listing, \<open>data\<close> returns the invalid \<open>QVariant\<close>. It returns no new
  model (the method is \<open>const\<close>), and the most it writes is one warning about the role.
\<close>

theorem data_unknown_role_or_row_is_invalid:
  assumes "stringRole \<notin> set (map snd ownRoleNames) \<or> r < 0 \<or> rowCount m \<le> r"
  shows "fst (data m r stringRole) = Invalid \<and>
     list_all is_warning (snd (data m r stringRole))"
proof (cases "map_of mRoleMapping stringRole")
  case None
  then show ?thesis by (simp add: data_def)
next
  case (Some role)
  have l: "list_all is_warning (snd (data m r stringRole))"
    using Some by (simp add: data_def data_role_log is_warning_def)
  show ?thesis
  proof (cases "stringRole \<notin> set (map snd ownRoleNames)")
    case True
    then have "role < FileNameRole" using Some by (rule mRoleMapping_other)
    then show ?thesis using Some l by (simp add: data_def data_role_def)
  next
    case False
    then have "r < 0 \<or> rowCount m \<le> r" using assms by blast
    then show ?thesis
      using Some l by (simp add: data_def index_out_of_range data_role_invalid_index)
  qed
qed

theorem data_unknown_role_or_row_is_invalid_witness:
  "rowCount ex_model \<le> 999 \<and> data ex_model 999 ''fileName'' = (Invalid, [])"
proof -
  have h: "rowCount ex_model \<le> 999" by (simp add: ex_rows)
  then have "snd (data ex_model 999 ''fileName'') = []"
    by (simp add: data_def mRoleMapping_own index_out_of_range data_role_log role_defs)
  then show ?thesis
    using h data_unknown_role_or_row_is_invalid [of "''fileName''" 999 ex_model]
    by (simp add: prod_eq_iff)
qed

subsection \<open>C8: renaming a row that does not exist\<close>

text \<open>
  Claim C8: for a row outside the listing \<open>rename\<close> returns false and does nothing
  but write a warning: the file system is not called and not changed, and listing and
  path stay.
\<close>

theorem rename_out_of_bounds_fails_fast:
  "r < 0 \<or> rowCount m \<le> r \<Longrightarrow>
   rename os r newName m = (False, m\<lparr>trace := trace m @ [Warning ''Out of bounds access'']\<rparr>)"
proof -
  assume "r < 0 \<or> rowCount m \<le> r"
  then have c: "r < 0 \<or> int (length (mDirectoryContents m)) \<le> r"
    by (simp add: rowCount_def)
  show ?thesis by (simp only: rename_def c if_True)
qed

theorem rename_out_of_bounds_fails_fast_witness:
  "rowCount ex_model \<le> 999 \<and> fst (rename ex_os 999 ''z.txt'' ex_model) = False \<and>
   fs (snd (rename ex_os 999 ''z.txt'' ex_model)) = fs ex_model \<and>
   mDirectoryContents (snd (rename ex_os 999 ''z.txt'' ex_model)) = mDirectoryContents ex_model \<and>
   trace (snd (rename ex_os 999 ''z.txt'' ex_model)) =
     trace ex_model @ [Warning ''Out of bounds access'']"
proof -
  have h: "rowCount ex_model \<le> 999" by (simp add: ex_rows)
  then have "(999::int) < 0 \<or> rowCount ex_model \<le> 999" by simp
  from rename_out_of_bounds_fails_fast [OF this, of ex_os "''z.txt''"] h
  show ?thesis by simp
qed

subsection \<open>C9: refreshing twice\<close>

text \<open>
  Claim C9 says that two \<open>refresh\<close> calls in a row over an unchanged file system give
  identical listings. \<open>refresh\<close> hands \<open>path()\<close> back to \<open>setPath\<close>, and each
  \<open>QDir\<close> built on the way drops one trailing slash. After \<open>setPath\<close> on
  \<open>/home////\<close> the path is \<open>/home///\<close>: the first \<open>refresh\<close> reads \<open>/home//\<close> and
  the second \<open>/home/\<close>, so the \<open>filePath\<close> role of row 3 is \<open>/home//a.txt\<close> after the
  first and \<open>/home/a.txt\<close> after the second, on the same file system.
\<close>

theorem refresh_twice_differs_on_trailing_slashes:
  "path ex_slashes = ''/home///'' \<and>
   fs (refresh ex_os_spelt (refresh ex_os_spelt ex_slashes)) =
     fs (refresh ex_os_spelt ex_slashes) \<and>
   fst (data (refresh ex_os_spelt ex_slashes) 3 ''filePath'') = QString ''/home//a.txt'' \<and>
   fst (data (refresh ex_os_spelt (refresh ex_os_spelt ex_slashes)) 3 ''filePath'') =
     QString ''/home/a.txt'' \<and>
   mDirectoryContents (refresh ex_os_spelt (refresh ex_os_spelt ex_slashes)) \<noteq>
     mDirectoryContents (refresh ex_os_spelt ex_slashes)"
proof -
  have "mDirectoryContents (refresh ex_os_spelt (refresh ex_os_spelt ex_slashes)) \<noteq>
     mDirectoryContents (refresh ex_os_spelt ex_slashes)"
  proof
    assume "mDirectoryContents (refresh ex_os_spelt (refresh ex_os_spelt ex_slashes)) =
      mDirectoryContents (refresh ex_os_spelt ex_slashes)"
    then have "data (refresh ex_os_spelt (refresh ex_os_spelt ex_slashes)) 3 ''filePath'' =
        data (refresh ex_os_spelt ex_slashes) 3 ''filePath''"
      by (rule data_listing_only)
    then show False using ex_slashes_first ex_slashes_second by simp
  qed
  then show ?thesis
    using ex_slashes_path ex_slashes_first ex_slashes_second
    by (simp add: refresh_def setPath_fs)
qed

text \<open>
  Claim C9, as the program has it: \<open>refresh\<close> is \<open>setPath\<close> on the current path; and
  when the path the first \<open>refresh\<close> sets is one that \<open>QDir\<close> reports as it is given
  (as every path without a trailing slash is), a second \<open>refresh\<close> on the same file
  system gives the listing of the first, row by row and role by role.
\<close>

theorem refresh_twice_same_listing:
  assumes "qdir_path os (qdir_path os (path m)) = qdir_path os (path m)"
  shows "refresh os m = setPath os (path m) m \<and>
     mDirectoryContents (refresh os (refresh os m)) = mDirectoryContents (refresh os m) \<and>
     (\<forall>r k. data (refresh os (refresh os m)) r k = data (refresh os m) r k)"
proof -
  have l: "mDirectoryContents (refresh os (refresh os m)) = mDirectoryContents (refresh os m)"
    using assms by (simp add: refresh_def path_def setPath_listing setPath_fs setPath_path)
  have "\<forall>r k. data (refresh os (refresh os m)) r k = data (refresh os m) r k"
    using data_listing_only [OF l] by blast
  moreover have "refresh os m = setPath os (path m) m"
    by (simp add: refresh_def)
  ultimately show ?thesis using l by blast
qed

theorem refresh_twice_same_listing_witness:
  "qdir_path ex_os (qdir_path ex_os (path ex_model)) = qdir_path ex_os (path ex_model) \<and>
   mDirectoryContents (refresh ex_os (refresh ex_os ex_model)) =
     mDirectoryContents (refresh ex_os ex_model) \<and>
   fst (data (refresh ex_os (refresh ex_os ex_model)) 3 ''fileName'') = QString ''a.txt''"
proof -
  have h: "qdir_path ex_os (qdir_path ex_os (path ex_model)) = qdir_path ex_os (path ex_model)"
    by (simp add: ex_model_path ex_qdir_home)
  have f: "fs ex_model = fs ex_model0" by (simp add: ex_model_def setPath_fs)
  have "refresh ex_os ex_model = setPath ex_os ''/home'' ex_model"
    by (simp add: refresh_def ex_model_path)
  then have "mDirectoryContents (refresh ex_os ex_model) =
      mDirectoryContents (setPath ex_os ''/home'' ex_model0)"
    by (simp add: setPath_listing f)
  then have "mDirectoryContents (refresh ex_os ex_model) = mDirectoryContents ex_model"
    by (simp add: ex_model_def)
  then have d: "data (refresh ex_os ex_model) 3 ''fileName'' = (QString ''a.txt'', [])"
    by (simp add: data_fileName rowCount_def ex_model_listing mk_node_def)
  have c: "mDirectoryContents (refresh ex_os (refresh ex_os ex_model)) =
        mDirectoryContents (refresh ex_os ex_model) \<and>
      (\<forall>r k. data (refresh ex_os (refresh ex_os ex_model)) r k =
        data (refresh ex_os ex_model) r k)"
    using refresh_twice_same_listing [OF h] by blast
  then have "data (refresh ex_os (refresh ex_os ex_model)) 3 ''fileName'' =
      data (refresh ex_os ex_model) 3 ''fileName''"
    by blast
  with d have "fst (data (refresh ex_os (refresh ex_os ex_model)) 3 ''fileName'') =
      QString ''a.txt''"
    by simp
  then show ?thesis using h c by blast
qed

subsection \<open>C10: files and directories\<close>

text \<open>
  Claim C10: for a row in range the \<open>isFile\<close> role is the negation of the \<open>isDir\<close>
  role, so an entry that is not a directory, of whatever kind, is reported as a file.
\<close>

theorem isFile_is_not_isDir:
  "0 \<le> r \<Longrightarrow> r < rowCount m \<Longrightarrow>
   fst (data m r ''isDir'') = QBool (isDir (mDirectoryContents m ! nat r)) \<and>
   fst (data m r ''isFile'') = QBool (\<not> isDir (mDirectoryContents m ! nat r))"
  by (simp add: data_def mRoleMapping_own index_in_range data_role_def role_defs rowCount_def)

theorem isFile_is_not_isDir_witness:
  "(0::int) \<le> 1 \<and> 1 < rowCount ex_model \<and>
   fst (data ex_model 1 ''isDir'') = QBool True \<and>
   fst (data ex_model 1 ''isFile'') = QBool False"
proof -
  have h: "(0::int) \<le> 1" "1 < rowCount ex_model" by (simp_all add: ex_rows)
  have "isDir (mDirectoryContents ex_model ! nat 1)"
    by (simp add: ex_model_listing mk_node_def)
  then show ?thesis using h isFile_is_not_isDir [OF h] by simp
qed

end
